theory Spec2Isabelle
  imports Complex_Main "HOL-Library.Monad_Syntax" "HOL-Library.State_Monad"
begin

section \<open>gpflow/misc.py: Python values and their runtime classes\<close>

text \<open>
  The predicates of \<^verbatim>\<open>misc.py\<close> inspect the runtime class of a value
  with \<^verbatim>\<open>isinstance\<close>. A value is modelled by a datatype with one
  constructor per runtime class the predicates can tell apart; lists carry their elements
  because \<^verbatim>\<open>is_valid_param_value\<close> walks them.
\<close>

datatype np_type =
    np_bool | np_int8 | np_int16 | np_int32 | np_int64
  | np_uint8 | np_uint16 | np_uint32 | np_uint64
  | np_float16 | np_float32 | np_float64
  | np_complex64 | np_complex128 | np_object | np_str

datatype pyclass =
    C_NoneType | C_bool | C_int | C_float | C_complex | C_str | C_bytes
  | C_list | C_tuple | C_ndarray | C_Tensor | C_Variable
  | C_numpy np_type
  | C_other string

datatype pyval =
    PNone
  | PBool bool
  | PInt int
  | PFloat real
  | PComplex real real
  | PStr string
  | PBytes string
  | PList "pyval list"
  | PTuple "pyval list"
  | PNdarray np_type "nat list"
  | PNpScalar np_type
  | PTensor string
  | PVariable string
  | PObject string

text \<open>The class of a value (\<^verbatim>\<open>type(value)\<close>).\<close>

fun class_of :: "pyval \<Rightarrow> pyclass" where
  "class_of PNone = C_NoneType"
| "class_of (PBool b) = C_bool"
| "class_of (PInt i) = C_int"
| "class_of (PFloat x) = C_float"
| "class_of (PComplex x y) = C_complex"
| "class_of (PStr s) = C_str"
| "class_of (PBytes s) = C_bytes"
| "class_of (PList vs) = C_list"
| "class_of (PTuple vs) = C_tuple"
| "class_of (PNdarray t sh) = C_ndarray"
| "class_of (PNpScalar t) = C_numpy t"
| "class_of (PTensor n) = C_Tensor"
| "class_of (PVariable n) = C_Variable"
| "class_of (PObject n) = C_other n"

text \<open>
  The classes a class inherits from, itself first, as far as the classes tested in
  \<^verbatim>\<open>misc.py\<close> are concerned: \<^verbatim>\<open>bool\<close> is a subclass of
  \<^verbatim>\<open>int\<close>, \<^verbatim>\<open>numpy.float64\<close> of \<^verbatim>\<open>float\<close>,
  \<^verbatim>\<open>numpy.complex128\<close> of \<^verbatim>\<open>complex\<close> and
  \<^verbatim>\<open>numpy.str_\<close> of \<^verbatim>\<open>str\<close>.
\<close>

fun mro :: "pyclass \<Rightarrow> pyclass list" where
  "mro C_bool = [C_bool, C_int]"
| "mro (C_numpy t) =
     (if t = np_float64 then [C_numpy t, C_float]
      else if t = np_complex128 then [C_numpy t, C_complex]
      else if t = np_str then [C_numpy t, C_str]
      else [C_numpy t])"
| "mro c = [c]"

text \<open>\<^verbatim>\<open>isinstance(value, (c1, c2, ...))\<close>.\<close>

definition isinstance :: "pyval \<Rightarrow> pyclass list \<Rightarrow> bool" where
  "isinstance value classes = list_ex (\<lambda>c. c \<in> set (mro (class_of value))) classes"

definition is_ndarray :: "pyval \<Rightarrow> bool" where
  "is_ndarray value = isinstance value [C_ndarray]"

definition is_list :: "pyval \<Rightarrow> bool" where
  "is_list value = isinstance value [C_list]"

definition is_tensor :: "pyval \<Rightarrow> bool" where
  "is_tensor value = isinstance value [C_Tensor, C_Variable]"

text \<open>
  \<^verbatim>\<open>np.isscalar\<close> belongs to the array library; it is a parameter
  \<open>isscalar\<close> of the predicates that call it.
\<close>

definition is_number :: "(pyval \<Rightarrow> bool) \<Rightarrow> pyval \<Rightarrow> bool" where
  "is_number isscalar value = ((\<not> isinstance value [C_str]) \<and> isscalar value)"

definition arrays :: "pyclass list" where
  "arrays = [C_list, C_ndarray]"

definition scalars :: "pyclass list" where
  "scalars = [C_float, C_int]"

text \<open>
  \<^verbatim>\<open>is_valid_param_value\<close>. The first equation is the branch
  \<^verbatim>\<open>isinstance(value, list)\<close>; the second is the final
  \<^verbatim>\<open>return\<close>, with Python's precedence: \<^verbatim>\<open>and\<close> binds
  tighter than \<^verbatim>\<open>or\<close>.
\<close>

fun is_valid_param_value :: "(pyval \<Rightarrow> bool) \<Rightarrow> pyval \<Rightarrow> bool" where
  "is_valid_param_value isscalar (PList value) =
     (if value = [] then False
      else
        let zero_val = hd value in
        if isinstance zero_val scalars then list_all (\<lambda>val. isinstance val scalars) (tl value)
        else if isinstance zero_val arrays then list_all (\<lambda>val. isinstance val arrays) (tl value)
        else False)"
| "is_valid_param_value isscalar value =
     (((value \<noteq> PNone) \<and> is_number isscalar value)
      \<or> is_ndarray value
      \<or> is_tensor value)"

section \<open>gpflow/misc.py: normalize_num_type\<close>

text \<open>Exceptions of the Python code are values; the string is the message.\<close>

datatype error = ValueError string | IndexError string | InvalidArgumentError string

text \<open>
  The two process-wide settings read by the normaliser
  (\<^verbatim>\<open>settings.float_type\<close>, \<^verbatim>\<open>settings.int_type\<close>).
\<close>

record settings =
  float_type :: pyclass
  int_type :: pyclass

text \<open>
  A type descriptor is a native type object or a dtype handle of the tensor framework
  (\<^verbatim>\<open>tf.DType\<close>), of a type \<open>'h\<close>. The attribute chain
  \<^verbatim>\<open>as_numpy_dtype.type\<close> of a handle belongs to the framework: it is the
  parameter \<open>as_numpy_type\<close>.
\<close>

datatype 'h descriptor = Native pyclass | DType 'h

fun class_name :: "pyclass \<Rightarrow> string" where
  "class_name C_NoneType = ''NoneType''"
| "class_name C_bool = ''bool''"
| "class_name C_int = ''int''"
| "class_name C_float = ''float''"
| "class_name C_complex = ''complex''"
| "class_name C_str = ''str''"
| "class_name C_bytes = ''bytes''"
| "class_name C_list = ''list''"
| "class_name C_tuple = ''tuple''"
| "class_name C_ndarray = ''numpy.ndarray''"
| "class_name C_Tensor = ''tensorflow.python.framework.ops.Tensor''"
| "class_name C_Variable = ''tensorflow.python.ops.variables.Variable''"
| "class_name (C_numpy np_bool) = ''numpy.bool_''"
| "class_name (C_numpy np_int8) = ''numpy.int8''"
| "class_name (C_numpy np_int16) = ''numpy.int16''"
| "class_name (C_numpy np_int32) = ''numpy.int32''"
| "class_name (C_numpy np_int64) = ''numpy.int64''"
| "class_name (C_numpy np_uint8) = ''numpy.uint8''"
| "class_name (C_numpy np_uint16) = ''numpy.uint16''"
| "class_name (C_numpy np_uint32) = ''numpy.uint32''"
| "class_name (C_numpy np_uint64) = ''numpy.uint64''"
| "class_name (C_numpy np_float16) = ''numpy.float16''"
| "class_name (C_numpy np_float32) = ''numpy.float32''"
| "class_name (C_numpy np_float64) = ''numpy.float64''"
| "class_name (C_numpy np_complex64) = ''numpy.complex64''"
| "class_name (C_numpy np_complex128) = ''numpy.complex128''"
| "class_name (C_numpy np_object) = ''numpy.object_''"
| "class_name (C_numpy np_str) = ''numpy.str_''"
| "class_name (C_other n) = n"

text \<open>What \<^verbatim>\<open>'{0}'.format\<close> prints for a type object.\<close>

definition class_str :: "pyclass \<Rightarrow> string" where
  "class_str c = ''<class '' @ [CHR 0x27] @ class_name c @ [CHR 0x27] @ ''>''"

definition unknown_dtype_message :: "pyclass \<Rightarrow> string" where
  "unknown_dtype_message num_type =
     ''Unknown dtype '' @ [CHR 0x22] @ class_str num_type @ [CHR 0x22] @ '' passed to normalizer.''"

text \<open>Lines 74-75: a framework handle is replaced by its native type.\<close>

fun unwrap_dtype :: "('h \<Rightarrow> pyclass) \<Rightarrow> 'h descriptor \<Rightarrow> pyclass" where
  "unwrap_dtype as_numpy_type (DType d) = as_numpy_type d"
| "unwrap_dtype as_numpy_type (Native c) = c"

definition normalize_num_type ::
  "settings \<Rightarrow> ('h \<Rightarrow> pyclass) \<Rightarrow> 'h descriptor \<Rightarrow> error + pyclass" where
  "normalize_num_type st as_numpy_type num_type =
     (let num_type = unwrap_dtype as_numpy_type num_type in
      if num_type \<in> set [C_numpy np_float32, C_numpy np_float64] then Inr (float_type st)
      else if num_type \<in> set [C_numpy np_int16, C_numpy np_int32, C_numpy np_int64]
        then Inr (int_type st)
      else Inl (ValueError (unknown_dtype_message num_type)))"

section \<open>gpflow/misc.py: vec_to_tri\<close>

text \<open>
  A vector is a list, a batch of vectors a list of lists, a matrix a list of rows. The
  elements are of any type with \<open>0\<close> and \<open>+\<close>. The size \<open>N\<close> is a natural number.

  \<^verbatim>\<open>np.tril_indices(N)\<close> returns the row indices and the column indices of
  the lower triangle of an \<open>N\<close> by \<open>N\<close> array, diagonal included, as two arrays, in the
  order in which a row-major scan of the array meets them.
\<close>

definition tril_indices :: "nat \<Rightarrow> nat list \<times> nat list" where
  "tril_indices N =
     (let ps = concat (map (\<lambda>r. map (\<lambda>c. (r, c)) (filter (\<lambda>c. c \<le> r) [0..<N])) [0..<N])
      in (map fst ps, map snd ps))"

definition zeros :: "nat \<Rightarrow> nat \<Rightarrow> ('a::zero) list list" where
  "zeros n m = replicate n (replicate m 0)"

text \<open>
  \<^verbatim>\<open>tf.scatter_nd(indices, updates, shape)\<close> for a matrix: starting from
  zeros of the given shape, each update is added at the position its index names, in
  order; an index outside the shape, an index that is not a pair, or a number of updates
  that differs from the number of indices is an error.
\<close>

fun scatter_updates ::
  "('a::monoid_add) list list \<Rightarrow> (nat list \<times> 'a) list \<Rightarrow> error + 'a list list" where
  "scatter_updates out [] = Inr out"
| "scatter_updates out (([r, c], u) # rest) =
     (if r < length out \<and> c < length (out ! r)
      then scatter_updates (out[r := (out ! r)[c := out ! r ! c + u]]) rest
      else Inl (InvalidArgumentError ''indices out of bounds''))"
| "scatter_updates out ((ix, u) # rest) =
     Inl (InvalidArgumentError ''index depth must match the rank of shape'')"

definition scatter_nd ::
  "nat list list \<Rightarrow> nat \<times> nat \<Rightarrow> ('a::monoid_add) list \<Rightarrow> error + 'a list list" where
  "scatter_nd indices shape updates =
     (if length updates \<noteq> length indices
      then Inl (InvalidArgumentError ''updates and indices differ in their outer dimension'')
      else scatter_updates (zeros (fst shape) (snd shape)) (zip indices updates))"

text \<open>
  \<^verbatim>\<open>tf.map_fn(fn, elems)\<close>: the function is applied to each element of
  the batch, and the results are stacked in the order of the batch; the first error
  ends the computation.
\<close>

fun map_fn :: "('a \<Rightarrow> error + 'b) \<Rightarrow> 'a list \<Rightarrow> error + 'b list" where
  "map_fn f [] = Inr []"
| "map_fn f (x # xs) =
     (case f x of
        Inl e \<Rightarrow> Inl e
      | Inr y \<Rightarrow> (case map_fn f xs of Inl e \<Rightarrow> Inl e | Inr ys \<Rightarrow> Inr (y # ys)))"

definition vec_to_tri :: "('a::monoid_add) list list \<Rightarrow> nat \<Rightarrow> error + 'a list list list" where
  "vec_to_tri vectors N =
     (let (rows, cols) = tril_indices N;
          indices = zip rows cols;
          indices = map (\<lambda>i. [fst i, snd i]) indices;
          vec_to_tri_vector = (\<lambda>vector. scatter_nd indices (N, N) vector)
      in map_fn vec_to_tri_vector vectors)"

text \<open>
  Reading a matrix back at the positions of \<open>tril_indices\<close>, in their order. The source
  has no such function; it states the round trip of \<open>vec_to_tri\<close>.
\<close>

definition read_back_tril :: "nat \<Rightarrow> 'a list list \<Rightarrow> 'a list" where
  "read_back_tril N m =
     (let (rows, cols) = tril_indices N in map (\<lambda>(r, c). m ! r ! c) (zip rows cols))"

section \<open>gpflow/models/sgpmc.py: the SGPMC model\<close>

text \<open>
  A dense array (\<^verbatim>\<open>np.ndarray\<close>) is its shape and its elements in row-major
  order. \<^verbatim>\<open>np.zeros(shape)\<close> refuses a negative dimension.
\<close>

record 'a ndarray =
  shape :: "nat list"
  data :: "'a list"

definition np_zeros :: "int list \<Rightarrow> error + ('a::zero) ndarray" where
  "np_zeros dims =
     (if list_ex (\<lambda>d. d < 0) dims then Inl (ValueError ''negative dimensions are not allowed'')
      else Inr \<lparr>shape = map nat dims, data = replicate (prod_list (map nat dims)) 0\<rparr>)"

text \<open>\<^verbatim>\<open>a.shape[i]\<close> for an index \<open>i \<ge> 0\<close>.\<close>

definition shape_at :: "'a ndarray \<Rightarrow> nat \<Rightarrow> error + nat" where
  "shape_at a i =
     (if i < length (shape a) then Inr (shape a ! i)
      else Inl (IndexError ''tuple index out of range''))"

text \<open>
  Modelled from the spec: the classes \<^verbatim>\<open>Parameter\<close> and
  \<^verbatim>\<open>Gaussian\<close> of the parameter and prior framework
  (\<^verbatim>\<open>gpflow/params\<close>, \<^verbatim>\<open>gpflow/priors\<close>) are not among the
  sources. A parameter is a named numeric array with an assignable, optional prior;
  \<^verbatim>\<open>Gaussian(mu, var)\<close> is the normal prior with that mean and variance.
\<close>

datatype prior_dist = Gaussian real real

record 'v parameter =
  pname :: string
  pvalue :: "'v ndarray"
  prior :: "prior_dist option"

definition Parameter :: "'v ndarray \<Rightarrow> string \<Rightarrow> 'v parameter" where
  "Parameter v n = \<lparr>pname = n, pvalue = v, prior = None\<rparr>"

text \<open>
  Modelled from the spec: the base class \<^verbatim>\<open>GPModel\<close>
  (\<^verbatim>\<open>gpflow/models/model.py\<close>) is not among the sources. The object it
  initialises provides the attributes \<^verbatim>\<open>name\<close>, \<^verbatim>\<open>X\<close>,
  \<^verbatim>\<open>Y\<close>, \<^verbatim>\<open>kern\<close>, \<^verbatim>\<open>likelihood\<close>,
  \<^verbatim>\<open>mean_function\<close> and the list \<^verbatim>\<open>_parameters\<close>. What
  \<^verbatim>\<open>GPModel.__init__\<close> computes is a parameter \<open>base_init\<close> of the
  constructor below.
\<close>

record ('x, 'y, 'k, 'l, 't, 'v) gpmodel =
  name :: string
  X :: 'x
  Y :: 'y
  kern :: 'k
  likelihood :: 'l
  mean_function :: "'x \<Rightarrow> 't"
  parameters :: "'v parameter list"

text \<open>
  The attributes that \<^verbatim>\<open>SGPMC.__init__\<close> adds; \<open>V_param\<close> is the
  attribute \<^verbatim>\<open>_V\<close>.
\<close>

record ('x, 'y, 'k, 'l, 't, 'v, 'f) sgpmc = "('x, 'y, 'k, 'l, 't, 'v) gpmodel" +
  num_data :: nat
  num_latent :: int
  feature :: 'f
  V_param :: "'v parameter"

text \<open>
  \<^verbatim>\<open>num_latent or Y.shape[1]\<close>: the argument is \<^verbatim>\<open>None\<close> or an
  integer; \<^verbatim>\<open>None\<close> and \<open>0\<close> are falsy, and the right operand is only
  evaluated then.
\<close>

definition num_latent_or :: "int option \<Rightarrow> 'b ndarray \<Rightarrow> error + int" where
  "num_latent_or num_latent_arg Y_arg =
     (case num_latent_arg of
        Some n \<Rightarrow> (if n \<noteq> 0 then Inr n else map_sum id int (shape_at Y_arg 1))
      | None \<Rightarrow> map_sum id int (shape_at Y_arg 1))"

text \<open>
  \<^verbatim>\<open>SGPMC.__init__\<close>. The base class initialiser \<open>base_init\<close>, the
  wrapper of the inducing points \<open>inducingpoint_wrapper\<close> and the length of a feature
  \<open>len\<close> are collaborators that are not among the sources; each statement that can
  raise is a \<open>case\<close>, in the order of the source.
\<close>

definition SGPMC_init ::
  "('a ndarray \<Rightarrow> 'b ndarray \<Rightarrow> 'k \<Rightarrow> 'l \<Rightarrow> 'm \<Rightarrow> error + ('x, 'y, 'k, 'l, 't, 'v) gpmodel) \<Rightarrow>
   ('fs \<Rightarrow> 'z \<Rightarrow> error + 'f) \<Rightarrow> ('f \<Rightarrow> nat) \<Rightarrow>
   'a ndarray \<Rightarrow> 'b ndarray \<Rightarrow> 'k \<Rightarrow> 'l \<Rightarrow> 'fs \<Rightarrow> 'm \<Rightarrow> int option \<Rightarrow> 'z \<Rightarrow>
   error + ('x, 'y, 'k, 'l, 't, 'v::zero, 'f) sgpmc" where
  "SGPMC_init base_init inducingpoint_wrapper len X_arg Y_arg kern_arg likelihood_arg feat
       mean_function_arg num_latent_arg Z =
     (case base_init X_arg Y_arg kern_arg likelihood_arg mean_function_arg of
        Inl e \<Rightarrow> Inl e
      | Inr self \<Rightarrow>
     (case shape_at X_arg 0 of
        Inl e \<Rightarrow> Inl e
      | Inr num_data' \<Rightarrow>
     (case num_latent_or num_latent_arg Y_arg of
        Inl e \<Rightarrow> Inl e
      | Inr num_latent' \<Rightarrow>
     (case inducingpoint_wrapper feat Z of
        Inl e \<Rightarrow> Inl e
      | Inr feature' \<Rightarrow>
     (case np_zeros [int (len feature'), num_latent'] of
        Inl e \<Rightarrow> Inl e
      | Inr z \<Rightarrow>
          let V0 = Parameter z ''V'';
              V1 = V0\<lparr>prior := Some (Gaussian 0 1)\<rparr>
          in Inr \<lparr>name = name self, X = X self, Y = Y self, kern = kern self,
                  likelihood = likelihood self, mean_function = mean_function self,
                  parameters = parameters self @ [V1],
                  num_data = num_data', num_latent = num_latent', feature = feature',
                  V_param = V1\<rparr>)))))"

text \<open>
  The methods read the attributes of \<^verbatim>\<open>self\<close>: they are computations in the
  state monad over the model. The property \<^verbatim>\<open>V\<close> returns
  \<^verbatim>\<open>self._V.value\<close>.
\<close>

definition V :: "(('x, 'y, 'k, 'l, 't, 'v, 'f) sgpmc, 'v ndarray) state" where
  "V = do { self \<leftarrow> State_Monad.get; State_Monad.return (pvalue (V_param self)) }"

text \<open>
  The arguments of the posterior-conditional routine
  \<^verbatim>\<open>conditional(feat, kern, Xnew, f, full_cov=..., q_sqrt=..., white=...)\<close>,
  which is not among the sources: it is a parameter \<open>conditional\<close> of the methods,
  from such a record to the pair of mean and variance.
\<close>

record ('f, 'k, 'x, 'v, 't) conditional_args =
  arg_feat :: 'f
  arg_kern :: 'k
  arg_Xnew :: 'x
  arg_f :: "'v ndarray"
  arg_full_cov :: bool
  arg_q_sqrt :: "'t option"
  arg_white :: bool

text \<open>\<^verbatim>\<open>SGPMC._build_predict\<close>; \<open>+\<close> is the addition of tensors.\<close>

definition build_predict ::
  "(('f, 'k, 'x, 'v, 't) conditional_args \<Rightarrow> 't \<times> 't) \<Rightarrow> 'x \<Rightarrow> bool \<Rightarrow>
   (('x, 'y, 'k, 'l, 't::plus, 'v, 'f) sgpmc, 't \<times> 't) state" where
  "build_predict conditional Xnew full_cov = do {
     self \<leftarrow> State_Monad.get;
     v \<leftarrow> V;
     let (mu, var) = conditional
           \<lparr>arg_feat = feature self, arg_kern = kern self, arg_Xnew = Xnew, arg_f = v,
            arg_full_cov = full_cov, arg_q_sqrt = None, arg_white = True\<rparr>;
     State_Monad.return (mu + mean_function self Xnew, var)
   }"

text \<open>
  \<^verbatim>\<open>tf.reduce_sum\<close> without an axis adds all the elements of a tensor; the
  tensor of variational expectations has one row per data point and one column per
  output dimension.
\<close>

definition reduce_sum :: "('e::comm_monoid_add) list list \<Rightarrow> 'e" where
  "reduce_sum t = sum_list (map sum_list t)"

text \<open>
  \<^verbatim>\<open>SGPMC._build_likelihood\<close>; the method
  \<^verbatim>\<open>variational_expectations\<close> of the likelihood is not among the sources
  and is a parameter.
\<close>

definition build_likelihood ::
  "(('f, 'k, 'x, 'v, 't) conditional_args \<Rightarrow> 't \<times> 't) \<Rightarrow>
   ('l \<Rightarrow> 't \<Rightarrow> 't \<Rightarrow> 'y \<Rightarrow> ('e::comm_monoid_add) list list) \<Rightarrow>
   (('x, 'y, 'k, 'l, 't::plus, 'v, 'f) sgpmc, 'e) state" where
  "build_likelihood conditional variational_expectations = do {
     self \<leftarrow> State_Monad.get;
     (fmean, fvar) \<leftarrow> build_predict conditional (X self) False;
     State_Monad.return
       (reduce_sum (variational_expectations (likelihood self) fmean fvar (Y self)))
   }"

section \<open>A small concrete model\<close>

text \<open>
  Concrete collaborators and a concrete model on which the statements below are
  evaluated: three data points, two output dimensions, two inducing points. The stand-in
  for a tensor is an integer.
\<close>

definition example_X :: "int ndarray" where
  "example_X = \<lparr>shape = [3, 1], data = [0, 1, 2]\<rparr>"

definition example_Y :: "int ndarray" where
  "example_Y = \<lparr>shape = [3, 2], data = [1, 2, 3, 4, 5, 6]\<rparr>"

definition example_Z :: "int ndarray" where
  "example_Z = \<lparr>shape = [2, 1], data = [0, 2]\<rparr>"

definition example_base_init ::
  "int ndarray \<Rightarrow> int ndarray \<Rightarrow> unit \<Rightarrow> unit \<Rightarrow> (int ndarray \<Rightarrow> int) \<Rightarrow>
   error + (int ndarray, int ndarray, unit, unit, int, real) gpmodel" where
  "example_base_init Xa Ya k l mf =
     Inr \<lparr>name = ''SGPMC'', X = Xa, Y = Ya, kern = k, likelihood = l, mean_function = mf,
          parameters = []\<rparr>"

definition example_wrapper :: "unit \<Rightarrow> int ndarray \<Rightarrow> error + int ndarray" where
  "example_wrapper feat Z = Inr Z"

definition example_len :: "int ndarray \<Rightarrow> nat" where
  "example_len f = hd (shape f)"

definition example_mean :: "int ndarray \<Rightarrow> int" where
  "example_mean x = 10"

definition example_V :: "real parameter" where
  "example_V = \<lparr>pname = ''V'', pvalue = \<lparr>shape = [2, 2], data = [0, 0, 0, 0]\<rparr>,
                prior = Some (Gaussian 0 1)\<rparr>"

definition example_model ::
  "(int ndarray, int ndarray, unit, unit, int, real, int ndarray) sgpmc" where
  "example_model =
     \<lparr>name = ''SGPMC'', X = example_X, Y = example_Y, kern = (), likelihood = (),
      mean_function = example_mean, parameters = [example_V],
      num_data = 3, num_latent = 2, feature = example_Z, V_param = example_V\<rparr>"

definition example_conditional ::
  "(int ndarray, unit, int ndarray, real, int) conditional_args \<Rightarrow> int \<times> int" where
  "example_conditional a =
     (int (length (data (arg_Xnew a))), if arg_white a \<and> arg_q_sqrt a = None then 1 else 0)"

definition example_ve :: "unit \<Rightarrow> int \<Rightarrow> int \<Rightarrow> int ndarray \<Rightarrow> int list list" where
  "example_ve l fmean fvar y =
     [[fmean, fvar], [fmean + 1, fvar + 1], [fmean + 2, fvar + 2]]"

section \<open>Auxiliary notions for the proofs about vec_to_tri\<close>

text \<open>
  The positions of the lower triangle as one list of pairs, the offset of row \<open>r\<close> in
  that list, the sum of the updates that a list of indexed updates sends to one position,
  and the matrix that \<open>vec_to_tri\<close> builds from one vector, in closed form. None of
  them is in the source.
\<close>

definition tril_pairs :: "nat \<Rightarrow> (nat \<times> nat) list" where
  "tril_pairs N = concat (map (\<lambda>r. map (\<lambda>c. (r, c)) [0..<Suc r]) [0..<N])"

definition tri_offset :: "nat \<Rightarrow> nat" where
  "tri_offset r = r * (r + 1) div 2"

fun contrib :: "(nat list \<times> ('a::monoid_add)) list \<Rightarrow> nat \<Rightarrow> nat \<Rightarrow> 'a" where
  "contrib [] r c = 0"
| "contrib ((ix, u) # rest) r c = (if ix = [r, c] then u + contrib rest r c else contrib rest r c)"

definition tri_matrix :: "nat \<Rightarrow> ('a::zero) list \<Rightarrow> 'a list list" where
  "tri_matrix N v =
     map (\<lambda>r. map (\<lambda>c. if c \<le> r then v ! (tri_offset r + c) else 0) [0..<N]) [0..<N]"

abbreviation index_rows :: "(nat \<times> nat) list \<Rightarrow> nat list list" where
  "index_rows ps \<equiv> map (\<lambda>i. [fst i, snd i]) ps"

section \<open>Properties of the value predicates\<close>

lemma is_list_iff: "is_list value \<longleftrightarrow> (\<exists>vs. value = PList vs)"
  by (cases "value") (auto simp: is_list_def isinstance_def)

lemma is_valid_param_value_non_list:
  "\<not> is_list value \<Longrightarrow>
   is_valid_param_value isscalar value =
     (((value \<noteq> PNone) \<and> is_number isscalar value) \<or> is_ndarray value \<or> is_tensor value)"
  by (cases "value") (simp_all add: is_list_def isinstance_def)

lemma None_not_array_or_tensor: "\<not> is_ndarray PNone \<and> \<not> is_tensor PNone"
  by (simp add: is_ndarray_def is_tensor_def isinstance_def)

lemma scalar_not_array: "isinstance v scalars \<Longrightarrow> \<not> isinstance v arrays"
  by (cases v) (auto simp: isinstance_def scalars_def arrays_def split: if_splits)

text \<open>
  C3. On every value that is not a list, \<open>is_valid_param_value\<close> is true exactly when the
  value is not \<open>None\<close> and is a number, an array or a tensor; the null check that the
  source writes in front of the number test only does not change this, because \<open>None\<close>
  is neither an array nor a tensor, and the result on \<open>None\<close> is false.
\<close>

theorem C3_non_list_valid_iff:
  "(\<not> is_list value \<longrightarrow>
      is_valid_param_value isscalar value =
        (value \<noteq> PNone \<and>
         (is_number isscalar value \<or> is_ndarray value \<or> is_tensor value)))
   \<and> is_valid_param_value isscalar PNone = False"
proof (intro conjI impI)
  assume nl: "\<not> is_list value"
  show "is_valid_param_value isscalar value =
        (value \<noteq> PNone \<and>
         (is_number isscalar value \<or> is_ndarray value \<or> is_tensor value))"
  proof (cases "value = PNone")
    case True
    then show ?thesis
      using None_not_array_or_tensor by simp
  next
    case False
    then show ?thesis
      using is_valid_param_value_non_list [OF nl, of isscalar] by simp
  qed
next
  show "is_valid_param_value isscalar PNone = False"
    using None_not_array_or_tensor by simp
qed

theorem C3_non_list_valid_iff_witness:
  "\<not> is_list (PNdarray np_float64 [2, 3]) \<and>
   is_valid_param_value (\<lambda>v. False) (PNdarray np_float64 [2, 3]) = True \<and>
   \<not> is_list (PStr ''abc'') \<and>
   is_valid_param_value (\<lambda>v. True) (PStr ''abc'') = False \<and>
   is_valid_param_value (\<lambda>v. True) PNone = False"
  using C3_non_list_valid_iff [of "PNdarray np_float64 [2, 3]" "\<lambda>v. False"]
        C3_non_list_valid_iff [of "PStr ''abc''" "\<lambda>v. True"]
  by (simp add: is_list_def is_ndarray_def is_tensor_def is_number_def isinstance_def)

lemma list_valid_Cons:
  "is_valid_param_value isscalar (PList (z # rest)) =
     ((isinstance z scalars \<and> (\<forall>v\<in>set rest. isinstance v scalars)) \<or>
      (isinstance z arrays \<and> (\<forall>v\<in>set rest. isinstance v arrays)))"
  using scalar_not_array [of z] by (auto simp: list_all_iff)

lemma list_valid_all_scalars:
  "vs \<noteq> [] \<Longrightarrow> \<forall>v\<in>set vs. isinstance v scalars \<Longrightarrow>
   is_valid_param_value isscalar (PList vs) = True"
  by (cases vs) (simp_all add: list_valid_Cons del: is_valid_param_value.simps)

lemma is_ndarray_arrays: "is_ndarray a \<Longrightarrow> isinstance a arrays"
  by (simp add: is_ndarray_def isinstance_def arrays_def)

lemma list_valid_mixed:
  assumes "s \<in> set vs" "isinstance s scalars" "a \<in> set vs" "isinstance a arrays"
  shows "is_valid_param_value isscalar (PList vs) = False"
proof (cases vs)
  case Nil
  then show ?thesis by simp
next
  case (Cons z rest)
  have "\<not> (isinstance z scalars \<and> (\<forall>v\<in>set rest. isinstance v scalars))"
    using assms Cons scalar_not_array by auto
  moreover have "\<not> (isinstance z arrays \<and> (\<forall>v\<in>set rest. isinstance v arrays))"
    using assms Cons scalar_not_array by auto
  ultimately show ?thesis
    by (simp add: Cons list_valid_Cons del: is_valid_param_value.simps)
qed

lemma float_int_scalars:
  "isinstance (PFloat x) scalars \<and> isinstance (PInt i) scalars"
  by (simp add: isinstance_def scalars_def)

text \<open>
  C4. On a list, \<open>is_valid_param_value\<close> is false on the empty list; on a non-empty
  list it is true exactly when the first element is a scalar (float or int) and so is
  every other element, or the first element is a list or an array and so is every other
  element; a first element of any other class gives false. Hence a non-empty list of
  floats, of ints, or of scalars in general is accepted, and a list that holds a scalar
  and an array is rejected.
\<close>

theorem C4_list_valid:
  "is_valid_param_value isscalar (PList []) = False \<and>
   is_valid_param_value isscalar (PList (z # rest)) =
     ((isinstance z scalars \<and> (\<forall>v\<in>set rest. isinstance v scalars)) \<or>
      (isinstance z arrays \<and> (\<forall>v\<in>set rest. isinstance v arrays))) \<and>
   (\<not> isinstance z scalars \<and> \<not> isinstance z arrays \<longrightarrow>
      is_valid_param_value isscalar (PList (z # rest)) = False) \<and>
   (vs \<noteq> [] \<and> ((\<forall>v\<in>set vs. \<exists>x. v = PFloat x) \<or> (\<forall>v\<in>set vs. \<exists>i. v = PInt i)
                \<or> (\<forall>v\<in>set vs. isinstance v scalars)) \<longrightarrow>
      is_valid_param_value isscalar (PList vs) = True) \<and>
   ((\<exists>s\<in>set vs. isinstance s scalars) \<and> (\<exists>a\<in>set vs. is_ndarray a) \<longrightarrow>
      is_valid_param_value isscalar (PList vs) = False)"
proof (intro conjI impI)
  show "is_valid_param_value isscalar (PList []) = False" by simp
  show "is_valid_param_value isscalar (PList (z # rest)) =
     ((isinstance z scalars \<and> (\<forall>v\<in>set rest. isinstance v scalars)) \<or>
      (isinstance z arrays \<and> (\<forall>v\<in>set rest. isinstance v arrays)))"
    by (rule list_valid_Cons)
  show "is_valid_param_value isscalar (PList (z # rest)) = False"
    if "\<not> isinstance z scalars \<and> \<not> isinstance z arrays"
    using that by (simp add: list_valid_Cons del: is_valid_param_value.simps)
  show "is_valid_param_value isscalar (PList vs) = True"
    if h: "vs \<noteq> [] \<and> ((\<forall>v\<in>set vs. \<exists>x. v = PFloat x) \<or> (\<forall>v\<in>set vs. \<exists>i. v = PInt i)
                \<or> (\<forall>v\<in>set vs. isinstance v scalars))"
  proof -
    have "\<forall>v\<in>set vs. isinstance v scalars"
      using h float_int_scalars by auto
    then show ?thesis using h list_valid_all_scalars by blast
  qed
  show "is_valid_param_value isscalar (PList vs) = False"
    if "(\<exists>s\<in>set vs. isinstance s scalars) \<and> (\<exists>a\<in>set vs. is_ndarray a)"
    using that list_valid_mixed is_ndarray_arrays by blast
qed

theorem C4_list_valid_witness:
  "is_valid_param_value (\<lambda>v. True) (PList [PFloat 1.5, PFloat 2, PFloat 3]) = True \<and>
   is_valid_param_value (\<lambda>v. True) (PList [PInt 1, PInt 2]) = True \<and>
   is_valid_param_value (\<lambda>v. True) (PList [PFloat 1.5, PNdarray np_float64 [2]]) = False \<and>
   is_valid_param_value (\<lambda>v. True) (PList [PNdarray np_float64 [2], PInt 1]) = False \<and>
   is_valid_param_value (\<lambda>v. True) (PList [PStr ''a'', PStr ''b'']) = False \<and>
   is_valid_param_value (\<lambda>v. True) (PList [PList [], PNdarray np_float64 [2]]) = True"
  using C4_list_valid [of "\<lambda>v. True" "PStr ''a''" "[PStr ''b'']" "[PFloat 1.5, PFloat 2, PFloat 3]"]
        C4_list_valid [of "\<lambda>v. True" "PList []" "[PNdarray np_float64 [2]]" "[PInt 1, PInt 2]"]
        C4_list_valid [of "\<lambda>v. True" "PStr ''a''" "[PStr ''b'']" "[PFloat 1.5, PNdarray np_float64 [2]]"]
        C4_list_valid [of "\<lambda>v. True" "PStr ''a''" "[PStr ''b'']" "[PNdarray np_float64 [2], PInt 1]"]
  by (simp add: isinstance_def scalars_def arrays_def is_ndarray_def)

section \<open>Properties of normalize_num_type\<close>

lemma normalize_cases:
  "normalize_num_type st f d =
     (if unwrap_dtype f d = C_numpy np_float32 \<or> unwrap_dtype f d = C_numpy np_float64
        then Inr (float_type st)
      else if unwrap_dtype f d = C_numpy np_int16 \<or> unwrap_dtype f d = C_numpy np_int32
              \<or> unwrap_dtype f d = C_numpy np_int64
        then Inr (int_type st)
      else Inl (ValueError (unknown_dtype_message (unwrap_dtype f d))))"
  by (simp add: normalize_num_type_def Let_def)

lemma class_name_numpy_inj:
  "class_name (C_numpy a) = class_name (C_numpy b) \<Longrightarrow> a = b"
  by (cases a; cases b; simp)

lemma unknown_dtype_message_numpy_inj:
  "unknown_dtype_message (C_numpy a) = unknown_dtype_message (C_numpy b) \<Longrightarrow> a = b"
  by (rule class_name_numpy_inj) (simp add: unknown_dtype_message_def class_str_def)

text \<open>
  C7. After a framework handle is replaced by its native type, \<open>normalize_num_type\<close>
  returns the configured float type for the 32- and 64-bit float types, the configured
  int type for the 16-, 32- and 64-bit signed integer types, and for every other type
  raises an error; it raises for exactly those other types. The message of the error is
  \<^verbatim>\<open>Unknown dtype "<class 'NAME'>" passed to normalizer.\<close> with the name
  of that type: for \<^verbatim>\<open>numpy.complex64\<close> and \<^verbatim>\<open>numpy.bool_\<close>
  it is written out below, and two numpy types with the same message are the same type.
\<close>

theorem C7_normalize_num_type:
  "(unwrap_dtype f d \<in> {C_numpy np_float32, C_numpy np_float64} \<longrightarrow>
      normalize_num_type st f d = Inr (float_type st)) \<and>
   (unwrap_dtype f d \<in> {C_numpy np_int16, C_numpy np_int32, C_numpy np_int64} \<longrightarrow>
      normalize_num_type st f d = Inr (int_type st)) \<and>
   (unwrap_dtype f d \<notin> {C_numpy np_float32, C_numpy np_float64,
                          C_numpy np_int16, C_numpy np_int32, C_numpy np_int64} \<longrightarrow>
      (\<exists>pre post. normalize_num_type st f d
          = Inl (ValueError (pre @ class_str (unwrap_dtype f d) @ post)))) \<and>
   (isl (normalize_num_type st f d) \<longleftrightarrow>
      unwrap_dtype f d \<notin> {C_numpy np_float32, C_numpy np_float64,
                          C_numpy np_int16, C_numpy np_int32, C_numpy np_int64}) \<and>
   unwrap_dtype f (DType h) = f h \<and> unwrap_dtype f (Native c) = c \<and>
   (unwrap_dtype f d \<notin> {C_numpy np_float32, C_numpy np_float64,
                          C_numpy np_int16, C_numpy np_int32, C_numpy np_int64} \<longrightarrow>
      normalize_num_type st f d
        = Inl (ValueError (''Unknown dtype '' @ [CHR 0x22] @ ''<class '' @ [CHR 0x27]
                 @ class_name (unwrap_dtype f d)
                 @ [CHR 0x27] @ ''>'' @ [CHR 0x22] @ '' passed to normalizer.''))) \<and>
   normalize_num_type st f (Native (C_numpy np_complex64))
     = Inl (ValueError (''Unknown dtype '' @ [CHR 0x22] @ ''<class '' @ [CHR 0x27]
              @ ''numpy.complex64''
              @ [CHR 0x27] @ ''>'' @ [CHR 0x22] @ '' passed to normalizer.'')) \<and>
   normalize_num_type st f (Native (C_numpy np_bool))
     = Inl (ValueError (''Unknown dtype '' @ [CHR 0x22] @ ''<class '' @ [CHR 0x27]
              @ ''numpy.bool_''
              @ [CHR 0x27] @ ''>'' @ [CHR 0x22] @ '' passed to normalizer.'')) \<and>
   (normalize_num_type st f (Native (C_numpy a)) = Inl e \<and>
    normalize_num_type st f (Native (C_numpy b)) = Inl e \<longrightarrow> a = b)"
proof -
  let ?five = "{C_numpy np_float32, C_numpy np_float64,
                C_numpy np_int16, C_numpy np_int32, C_numpy np_int64}"
  have raised: "normalize_num_type st f x
                  = Inl (ValueError (unknown_dtype_message (unwrap_dtype f x)))"
    if "unwrap_dtype f x \<notin> ?five" for x
    using that by (simp add: normalize_cases)
  have c1: "unwrap_dtype f d \<in> {C_numpy np_float32, C_numpy np_float64} \<longrightarrow>
      normalize_num_type st f d = Inr (float_type st)"
    by (auto simp: normalize_cases)
  have c2: "unwrap_dtype f d \<in> {C_numpy np_int16, C_numpy np_int32, C_numpy np_int64} \<longrightarrow>
      normalize_num_type st f d = Inr (int_type st)"
    by (auto simp: normalize_cases)
  have c3: "unwrap_dtype f d \<notin> ?five \<longrightarrow>
      (\<exists>pre post. normalize_num_type st f d
          = Inl (ValueError (pre @ class_str (unwrap_dtype f d) @ post)))"
  proof
    assume "unwrap_dtype f d \<notin> ?five"
    then have "normalize_num_type st f d
                 = Inl (ValueError (unknown_dtype_message (unwrap_dtype f d)))"
      by (rule raised)
    then show "\<exists>pre post. normalize_num_type st f d
          = Inl (ValueError (pre @ class_str (unwrap_dtype f d) @ post))"
      unfolding unknown_dtype_message_def by (metis append.assoc)
  qed
  have c4: "isl (normalize_num_type st f d) \<longleftrightarrow> unwrap_dtype f d \<notin> ?five"
    by (simp add: normalize_cases)
  have c5: "unwrap_dtype f (DType h) = f h" by simp
  have c6: "unwrap_dtype f (Native c) = c" by simp
  have c7: "unwrap_dtype f d \<notin> ?five \<longrightarrow>
      normalize_num_type st f d
        = Inl (ValueError (''Unknown dtype '' @ [CHR 0x22] @ ''<class '' @ [CHR 0x27]
                 @ class_name (unwrap_dtype f d)
                 @ [CHR 0x27] @ ''>'' @ [CHR 0x22] @ '' passed to normalizer.''))"
    using raised [of d] by (simp add: unknown_dtype_message_def class_str_def)
  have c8: "normalize_num_type st f (Native (C_numpy np_complex64))
     = Inl (ValueError (''Unknown dtype '' @ [CHR 0x22] @ ''<class '' @ [CHR 0x27]
              @ ''numpy.complex64''
              @ [CHR 0x27] @ ''>'' @ [CHR 0x22] @ '' passed to normalizer.''))"
    by (simp add: normalize_cases unknown_dtype_message_def class_str_def)
  have c9: "normalize_num_type st f (Native (C_numpy np_bool))
     = Inl (ValueError (''Unknown dtype '' @ [CHR 0x22] @ ''<class '' @ [CHR 0x27]
              @ ''numpy.bool_''
              @ [CHR 0x27] @ ''>'' @ [CHR 0x22] @ '' passed to normalizer.''))"
    by (simp add: normalize_cases unknown_dtype_message_def class_str_def)
  have c10: "normalize_num_type st f (Native (C_numpy a)) = Inl e \<and>
    normalize_num_type st f (Native (C_numpy b)) = Inl e \<longrightarrow> a = b"
  proof
    assume h: "normalize_num_type st f (Native (C_numpy a)) = Inl e \<and>
      normalize_num_type st f (Native (C_numpy b)) = Inl e"
    then have "e = ValueError (unknown_dtype_message (C_numpy a))"
      and "e = ValueError (unknown_dtype_message (C_numpy b))"
      by (auto simp: normalize_cases split: if_splits)
    then have "unknown_dtype_message (C_numpy a) = unknown_dtype_message (C_numpy b)"
      by simp
    then show "a = b" by (rule unknown_dtype_message_numpy_inj)
  qed
  show ?thesis
    by (rule conjI [OF c1 conjI [OF c2 conjI [OF c3 conjI [OF c4 conjI [OF c5
          conjI [OF c6 conjI [OF c7 conjI [OF c8 conjI [OF c9 c10]]]]]]]]])
qed

theorem C7_normalize_num_type_witness:
  "normalize_num_type \<lparr>float_type = C_numpy np_float64, int_type = C_numpy np_int32\<rparr>
      (\<lambda>h::bool. if h then C_numpy np_float32 else C_numpy np_complex128) (DType True)
     = Inr (C_numpy np_float64) \<and>
   normalize_num_type \<lparr>float_type = C_numpy np_float64, int_type = C_numpy np_int32\<rparr>
      (\<lambda>h::bool. if h then C_numpy np_float32 else C_numpy np_complex128)
      (Native (C_numpy np_int16))
     = Inr (C_numpy np_int32) \<and>
   normalize_num_type \<lparr>float_type = C_numpy np_float64, int_type = C_numpy np_int32\<rparr>
      (\<lambda>h::bool. if h then C_numpy np_float32 else C_numpy np_complex128) (DType False)
     = Inl (ValueError (''Unknown dtype '' @ [CHR 0x22] @ ''<class '' @ [CHR 0x27]
              @ ''numpy.complex128''
              @ [CHR 0x27] @ ''>'' @ [CHR 0x22] @ '' passed to normalizer.'')) \<and>
   normalize_num_type \<lparr>float_type = C_numpy np_float64, int_type = C_numpy np_int32\<rparr>
      (\<lambda>h::bool. if h then C_numpy np_float32 else C_numpy np_complex128)
      (Native C_bool)
     = Inl (ValueError (''Unknown dtype '' @ [CHR 0x22] @ ''<class '' @ [CHR 0x27]
              @ ''bool''
              @ [CHR 0x27] @ ''>'' @ [CHR 0x22] @ '' passed to normalizer.''))"
  using C7_normalize_num_type
          [of "\<lambda>h::bool. if h then C_numpy np_float32 else C_numpy np_complex128" "DType True"
              "\<lparr>float_type = C_numpy np_float64, int_type = C_numpy np_int32\<rparr>"]
        C7_normalize_num_type
          [of "\<lambda>h::bool. if h then C_numpy np_float32 else C_numpy np_complex128"
              "Native (C_numpy np_int16)"
              "\<lparr>float_type = C_numpy np_float64, int_type = C_numpy np_int32\<rparr>"]
        C7_normalize_num_type
          [of "\<lambda>h::bool. if h then C_numpy np_float32 else C_numpy np_complex128"
              "DType False"
              "\<lparr>float_type = C_numpy np_float64, int_type = C_numpy np_int32\<rparr>"]
        C7_normalize_num_type
          [of "\<lambda>h::bool. if h then C_numpy np_float32 else C_numpy np_complex128"
              "Native C_bool"
              "\<lparr>float_type = C_numpy np_float64, int_type = C_numpy np_int32\<rparr>"]
  by simp

section \<open>Properties of vec_to_tri\<close>

lemma filter_le_upt: "r < N \<Longrightarrow> filter (\<lambda>c. c \<le> r) [0..<N] = [0..<Suc r]"
proof -
  assume "r < N"
  then have "[0..<N] = [0..<Suc r] @ [Suc r..<Suc r + (N - Suc r)]"
    using upt_add_eq_append [of 0 "Suc r" "N - Suc r"] by simp
  then have "filter (\<lambda>c. c \<le> r) [0..<N]
             = filter (\<lambda>c. c \<le> r) [0..<Suc r] @ filter (\<lambda>c. c \<le> r) [Suc r..<Suc r + (N - Suc r)]"
    by (metis filter_append)
  moreover have "filter (\<lambda>c. c \<le> r) [0..<Suc r] = [0..<Suc r]"
    by (rule filter_True) (simp del: upt_Suc)
  moreover have "filter (\<lambda>c. c \<le> r) [Suc r..<Suc r + (N - Suc r)] = []"
    by (rule filter_False) (simp del: upt_Suc)
  ultimately show ?thesis by simp
qed

lemma tril_indices_zip:
  "zip (fst (tril_indices N)) (snd (tril_indices N)) = tril_pairs N"
proof -
  have "map (\<lambda>r. map (\<lambda>c. (r, c)) (filter (\<lambda>c. c \<le> r) [0..<N])) [0..<N]
        = map (\<lambda>r. map (\<lambda>c. (r, c)) [0..<Suc r]) [0..<N]"
    by (rule map_cong) (simp_all add: filter_le_upt del: upt_Suc)
  then have "concat (map (\<lambda>r. map (\<lambda>c. (r, c)) (filter (\<lambda>c. c \<le> r) [0..<N])) [0..<N])
        = tril_pairs N"
    unfolding tril_pairs_def by (rule arg_cong)
  then show ?thesis
    by (simp add: tril_indices_def Let_def zip_map_fst_snd del: upt_Suc)
qed

lemma tril_pairs_Suc: "tril_pairs (Suc N) = tril_pairs N @ map (\<lambda>c. (N, c)) [0..<Suc N]"
  by (simp add: tril_pairs_def)

lemma tri_offset_Suc: "tri_offset (Suc N) = tri_offset N + Suc N"
  by (simp add: tri_offset_def)

lemma length_tril_pairs: "length (tril_pairs N) = tri_offset N"
proof (induction N)
  case 0
  then show ?case by (simp add: tril_pairs_def tri_offset_def)
next
  case (Suc N)
  then show ?case by (simp add: tril_pairs_Suc tri_offset_Suc del: upt_Suc)
qed

lemma tri_offset_mono: "r \<le> N \<Longrightarrow> tri_offset r \<le> tri_offset N"
  by (induction N) (auto simp: tri_offset_Suc le_Suc_eq)

lemma nth_tril_pairs:
  "c \<le> r \<Longrightarrow> r < N \<Longrightarrow> tril_pairs N ! (tri_offset r + c) = (r, c)"
proof (induction N)
  case 0
  then show ?case by simp
next
  case (Suc N)
  show ?case
  proof (cases "r < N")
    case True
    have "tri_offset r + c < tri_offset (Suc r)"
      using Suc.prems by (simp add: tri_offset_Suc)
    moreover have "tri_offset (Suc r) \<le> tri_offset N"
      using True by (simp add: tri_offset_mono)
    ultimately have "tri_offset r + c < length (tril_pairs N)"
      by (simp add: length_tril_pairs)
    then show ?thesis
      using Suc True by (simp add: tril_pairs_Suc nth_append del: upt_Suc)
  next
    case False
    then have r: "r = N" using Suc.prems by simp
    have "(tril_pairs N @ map (\<lambda>c. (N, c)) [0..<Suc N]) ! (length (tril_pairs N) + c)
          = map (\<lambda>c. (N, c)) [0..<Suc N] ! c"
      by (rule nth_append_length_plus)
    also have "\<dots> = (N, c)"
      using Suc.prems r by (simp del: upt_Suc)
    finally show ?thesis
      by (simp add: tril_pairs_Suc r length_tril_pairs del: upt_Suc)
  qed
qed

lemma set_tril_pairs: "set (tril_pairs N) = {(r, c). c \<le> r \<and> r < N}"
proof (induction N)
  case 0
  then show ?case by (simp add: tril_pairs_def)
next
  case (Suc N)
  have "set (tril_pairs (Suc N)) = set (tril_pairs N) \<union> (\<lambda>c. (N, c)) ` {0..<Suc N}"
    by (simp add: tril_pairs_Suc del: upt_Suc)
  also have "\<dots> = {(r, c). c \<le> r \<and> r < Suc N}"
    unfolding Suc.IH by (auto simp: less_Suc_eq image_iff)
  finally show ?case .
qed

lemma distinct_tril_pairs: "distinct (tril_pairs N)"
proof (induction N)
  case 0
  then show ?case by (simp add: tril_pairs_def)
next
  case (Suc N)
  have "distinct (map (\<lambda>c. (N, c)) [0..<Suc N])"
    by (simp add: distinct_map inj_on_def del: upt_Suc)
  moreover have "set (tril_pairs N) \<inter> set (map (\<lambda>c. (N, c)) [0..<Suc N]) = {}"
    by (auto simp: set_tril_pairs)
  ultimately show ?case
    using Suc by (simp add: tril_pairs_Suc del: upt_Suc)
qed


lemma matrix_as_map:
  assumes "length out = n" "\<forall>row\<in>set out. length row = m"
  shows "map (\<lambda>r. map (\<lambda>c. out ! r ! c) [0..<m]) [0..<n] = out"
proof (rule nth_equalityI)
  show "length (map (\<lambda>r. map (\<lambda>c. out ! r ! c) [0..<m]) [0..<n]) = length out"
    using assms by simp
next
  fix r assume "r < length (map (\<lambda>r. map (\<lambda>c. out ! r ! c) [0..<m]) [0..<n])"
  then have r: "r < n" by simp
  then have "length (out ! r) = m" using assms by simp
  then have "map (\<lambda>c. out ! r ! c) [0..<m] = out ! r"
    using map_nth [of "out ! r"] by simp
  then show "map (\<lambda>r. map (\<lambda>c. out ! r ! c) [0..<m]) [0..<n] ! r = out ! r"
    using r by simp
qed

lemma scatter_updates_result:
  fixes out :: "('a::monoid_add) list list"
  assumes "length out = n" "\<forall>row\<in>set out. length row = m"
    and "\<forall>ixu\<in>set ixus. \<exists>r c. fst ixu = [r, c] \<and> r < n \<and> c < m"
  shows "scatter_updates out ixus
         = Inr (map (\<lambda>r. map (\<lambda>c. out ! r ! c + contrib ixus r c) [0..<m]) [0..<n])"
  using assms
proof (induction ixus arbitrary: out)
  case Nil
  then show ?case by (simp add: matrix_as_map)
next
  case (Cons ixu rest)
  obtain ix u where ixu: "ixu = (ix, u)" by (cases ixu)
  from Cons.prems(3) ixu obtain r0 c0 where ix: "ix = [r0, c0]" and r0: "r0 < n" and c0: "c0 < m"
    by auto
  define out1 where "out1 = out[r0 := (out ! r0)[c0 := out ! r0 ! c0 + u]]"
  have len1: "length out1 = n"
    using Cons.prems(1) by (simp add: out1_def)
  have rowlen: "length (out ! r0) = m"
    using Cons.prems(1,2) r0 by simp
  have rows1: "\<forall>row\<in>set out1. length row = m"
  proof
    fix row assume "row \<in> set out1"
    then have "row \<in> insert ((out ! r0)[c0 := out ! r0 ! c0 + u]) (set out)"
      unfolding out1_def using set_update_subset_insert by fastforce
    then show "length row = m"
      using Cons.prems(2) rowlen by auto
  qed
  have rest: "\<forall>ixu\<in>set rest. \<exists>r c. fst ixu = [r, c] \<and> r < n \<and> c < m"
    using Cons.prems(3) by simp
  have step: "scatter_updates out (ixu # rest) = scatter_updates out1 rest"
    using r0 c0 rowlen Cons.prems(1) by (simp add: ixu ix out1_def)
  have entry: "out1 ! r ! c + contrib rest r c = out ! r ! c + contrib (ixu # rest) r c"
    if "r < n" "c < m" for r c
  proof (cases "r = r0 \<and> c = c0")
    case True
    then show ?thesis
      using r0 c0 rowlen Cons.prems(1) by (simp add: out1_def ixu ix add.assoc)
  next
    case False
    then have "out1 ! r ! c = out ! r ! c"
      using that Cons.prems(1) r0 by (auto simp: out1_def nth_list_update)
    then show ?thesis
      using False by (auto simp: ixu ix)
  qed
  have "map (\<lambda>r. map (\<lambda>c. out1 ! r ! c + contrib rest r c) [0..<m]) [0..<n]
        = map (\<lambda>r. map (\<lambda>c. out ! r ! c + contrib (ixu # rest) r c) [0..<m]) [0..<n]"
    using entry by simp
  then show ?case
    using Cons.IH [OF len1 rows1 rest] step by simp
qed

lemma contrib_miss:
  "(r, c) \<notin> set ps \<Longrightarrow> length us = length ps \<Longrightarrow> contrib (zip (index_rows ps) us) r c = 0"
proof (induction ps arbitrary: us)
  case Nil
  then show ?case by simp
next
  case (Cons p ps)
  then obtain u us' where us: "us = u # us'" by (cases us) auto
  have "p \<noteq> (r, c)" using Cons.prems by auto
  then have "[fst p, snd p] \<noteq> [r, c]" by (cases p) auto
  then show ?case
    using Cons us by auto
qed

lemma contrib_hit:
  "distinct ps \<Longrightarrow> length us = length ps \<Longrightarrow> k < length ps \<Longrightarrow> ps ! k = (r, c) \<Longrightarrow>
   contrib (zip (index_rows ps) us) r c = us ! k"
proof (induction ps arbitrary: us k)
  case Nil
  then show ?case by simp
next
  case (Cons p ps)
  then obtain u us' where us: "us = u # us'" by (cases us) auto
  show ?case
  proof (cases k)
    case 0
    then have p: "p = (r, c)" using Cons.prems by simp
    then have "(r, c) \<notin> set ps" using Cons.prems by simp
    then have "contrib (zip (index_rows ps) us') r c = 0"
      using Cons.prems us by (simp add: contrib_miss)
    then show ?thesis
      using 0 us p by simp
  next
    case (Suc j)
    then have "ps ! j = (r, c)" "j < length ps" using Cons.prems by auto
    then have "(r, c) \<in> set ps" by (metis nth_mem)
    then have "p \<noteq> (r, c)" using Cons.prems by auto
    then have ne: "[fst p, snd p] \<noteq> [r, c]" by (cases p) auto
    have "contrib (zip (index_rows ps) us') r c = us' ! j"
      using Cons.IH [of us' j] Cons.prems us \<open>ps ! j = (r, c)\<close> \<open>j < length ps\<close> by simp
    then show ?thesis
      using ne us Suc by auto
  qed
qed

lemma zeros_shape: "length (zeros n m) = n \<and> (\<forall>row\<in>set (zeros n m). length row = m)"
  by (simp add: zeros_def)

lemma zeros_nth: "r < n \<Longrightarrow> c < m \<Longrightarrow> zeros n m ! r ! c = 0"
  by (simp add: zeros_def)

lemma scatter_nd_tril:
  fixes v :: "('a::monoid_add) list"
  assumes "length v = tri_offset N"
  shows "scatter_nd (index_rows (tril_pairs N)) (N, N) v = Inr (tri_matrix N v)"
proof -
  let ?ps = "tril_pairs N"
  let ?ixus = "zip (index_rows ?ps) v"
  have len: "length v = length ?ps"
    using assms by (simp add: length_tril_pairs)
  have bounds: "\<forall>ixu\<in>set ?ixus. \<exists>r c. fst ixu = [r, c] \<and> r < N \<and> c < N"
  proof
    fix ixu assume "ixu \<in> set ?ixus"
    then have "(fst ixu, snd ixu) \<in> set ?ixus" by simp
    then have "fst ixu \<in> set (index_rows ?ps)"
      by (rule set_zip_leftD)
    then obtain p where p: "p \<in> set ?ps" "fst ixu = [fst p, snd p]" by auto
    from p(1) have "snd p \<le> fst p \<and> fst p < N"
      by (auto simp: set_tril_pairs)
    with p(2) show "\<exists>r c. fst ixu = [r, c] \<and> r < N \<and> c < N"
      by auto
  qed
  have entry: "zeros N N ! r ! c + contrib ?ixus r c
               = (if c \<le> r then v ! (tri_offset r + c) else 0)"
    if "r < N" "c < N" for r c
  proof (cases "c \<le> r")
    case True
    have k: "tri_offset r + c < length ?ps"
    proof -
      have "tri_offset r + c < tri_offset (Suc r)" using True by (simp add: tri_offset_Suc)
      moreover have "tri_offset (Suc r) \<le> tri_offset N"
        using that by (simp add: tri_offset_mono)
      ultimately show ?thesis by (simp add: length_tril_pairs)
    qed
    have "contrib ?ixus r c = v ! (tri_offset r + c)"
      using contrib_hit [OF distinct_tril_pairs len k] nth_tril_pairs [OF True that(1)] by simp
    then show ?thesis
      using True that by (simp add: zeros_nth)
  next
    case False
    then have "(r, c) \<notin> set ?ps" by (simp add: set_tril_pairs)
    then have "contrib ?ixus r c = 0"
      using len by (simp add: contrib_miss)
    then show ?thesis
      using False that by (simp add: zeros_nth)
  qed
  have "scatter_updates (zeros N N) ?ixus
        = Inr (map (\<lambda>r. map (\<lambda>c. zeros N N ! r ! c + contrib ?ixus r c) [0..<N]) [0..<N])"
    using zeros_shape [of N N] bounds by (intro scatter_updates_result) auto
  also have "map (\<lambda>r. map (\<lambda>c. zeros N N ! r ! c + contrib ?ixus r c) [0..<N]) [0..<N]
             = tri_matrix N v"
    unfolding tri_matrix_def using entry by simp
  finally show ?thesis
    using len by (simp add: scatter_nd_def)
qed

lemma map_fn_all_ok: "(\<forall>x\<in>set xs. f x = Inr (g x)) \<Longrightarrow> map_fn f xs = Inr (map g xs)"
  by (induction xs) simp_all

lemma vec_to_tri_result:
  fixes vectors :: "('a::monoid_add) list list"
  assumes "\<forall>v\<in>set vectors. length v = tri_offset N"
  shows "vec_to_tri vectors N = Inr (map (tri_matrix N) vectors)"
proof -
  have "vec_to_tri vectors N
        = map_fn (\<lambda>vector. scatter_nd (index_rows (tril_pairs N)) (N, N) vector) vectors"
    using tril_indices_zip [of N]
    by (simp add: vec_to_tri_def Let_def case_prod_beta)
  then show ?thesis
    using assms by (simp add: map_fn_all_ok scatter_nd_tril)
qed

lemma tri_matrix_nth:
  "r < N \<Longrightarrow> c < N \<Longrightarrow>
   tri_matrix N v ! r ! c = (if c \<le> r then v ! (tri_offset r + c) else 0)"
  by (simp add: tri_matrix_def)

lemma length_tri_matrix: "length (tri_matrix N v) = N"
  by (simp add: tri_matrix_def)

lemma length_tri_matrix_row: "r < N \<Longrightarrow> length (tri_matrix N v ! r) = N"
  by (simp add: tri_matrix_def)

lemma read_back_tri_matrix:
  assumes "length v = tri_offset N"
  shows "read_back_tril N (tri_matrix N v) = v"
proof (rule nth_equalityI)
  have rb: "read_back_tril N m = map (\<lambda>(r, c). m ! r ! c) (tril_pairs N)" for m :: "'a list list"
    using tril_indices_zip [of N] by (simp add: read_back_tril_def case_prod_beta)
  show len: "length (read_back_tril N (tri_matrix N v)) = length v"
    using assms by (simp add: rb length_tril_pairs)
  fix k assume "k < length (read_back_tril N (tri_matrix N v))"
  then have k: "k < length (tril_pairs N)" by (simp add: rb)
  obtain r c where rc: "tril_pairs N ! k = (r, c)" by (cases "tril_pairs N ! k")
  then have "(r, c) \<in> set (tril_pairs N)" using k by (metis nth_mem)
  then have b: "c \<le> r" "r < N" by (auto simp: set_tril_pairs)
  have "tril_pairs N ! (tri_offset r + c) = tril_pairs N ! k"
    using nth_tril_pairs [OF b] rc by simp
  moreover have "tri_offset r + c < length (tril_pairs N)"
  proof -
    have "tri_offset r + c < tri_offset (Suc r)" using b by (simp add: tri_offset_Suc)
    moreover have "tri_offset (Suc r) \<le> tri_offset N" using b by (simp add: tri_offset_mono)
    ultimately show ?thesis by (simp add: length_tril_pairs)
  qed
  ultimately have "tri_offset r + c = k"
    using distinct_tril_pairs k by (simp add: nth_eq_iff_index_eq)
  then show "read_back_tril N (tri_matrix N v) ! k = v ! k"
    using k rc b by (simp add: rb tri_matrix_nth)
qed


lemma tril_indices_nth:
  "k < length (tril_pairs N) \<Longrightarrow>
   (fst (tril_indices N) ! k, snd (tril_indices N) ! k) = tril_pairs N ! k"
proof -
  assume k: "k < length (tril_pairs N)"
  have l: "length (fst (tril_indices N)) = length (snd (tril_indices N))"
    by (simp add: tril_indices_def Let_def)
  have "zip (fst (tril_indices N)) (snd (tril_indices N)) ! k
        = (fst (tril_indices N) ! k, snd (tril_indices N) ! k)"
    using k l tril_indices_zip [of N] by (metis length_zip min.idem nth_zip)
  then show ?thesis by (simp add: tril_indices_zip)
qed

lemma tri_matrix_at_index:
  assumes "length v = tri_offset N" "k < tri_offset N"
  shows "tri_matrix N v ! (fst (tril_indices N) ! k) ! (snd (tril_indices N) ! k) = v ! k"
proof -
  have k: "k < length (tril_pairs N)" using assms by (simp add: length_tril_pairs)
  have "read_back_tril N (tri_matrix N v) ! k = v ! k"
    using read_back_tri_matrix [OF assms(1)] by simp
  moreover have "read_back_tril N (tri_matrix N v) ! k
        = (\<lambda>(r, c). tri_matrix N v ! r ! c) (tril_pairs N ! k)"
    using k tril_indices_zip [of N] by (simp add: read_back_tril_def case_prod_beta)
  ultimately show ?thesis
    using tril_indices_nth [OF k, symmetric] by simp
qed

text \<open>
  C5. For a batch of vectors of length \<open>N (N + 1) / 2\<close>, \<open>vec_to_tri\<close> returns one
  \<open>N\<close> by \<open>N\<close> matrix per vector, in the order of the batch; in each matrix the entry
  at row \<open>r\<close> and column \<open>c \<le> r\<close> is the element \<open>r (r + 1) / 2 + c\<close> of its
  vector, that is the \<open>k\<close>-th element lies at the \<open>k\<close>-th position of
  \<open>tril_indices\<close>, and every entry above the diagonal is zero. For \<open>N = 3\<close> and the
  vector \<open>[1, 2, 3, 4, 5, 6]\<close> the result is \<open>[[1, 0, 0], [2, 3, 0], [4, 5, 6]]\<close>.
\<close>

theorem C5_vec_to_tri_scatter:
  fixes vectors :: "('a::monoid_add) list list"
  shows
  "((\<forall>v\<in>set vectors. length v = N * (N + 1) div 2) \<longrightarrow>
      (\<exists>ms. vec_to_tri vectors N = Inr ms \<and> length ms = length vectors \<and>
        (\<forall>d<length vectors.
           length (ms ! d) = N \<and>
           (\<forall>r<N. length (ms ! d ! r) = N \<and>
              (\<forall>c<N. ms ! d ! r ! c =
                 (if c \<le> r then vectors ! d ! (r * (r + 1) div 2 + c) else 0))) \<and>
           (\<forall>k<N * (N + 1) div 2.
              ms ! d ! (fst (tril_indices N) ! k) ! (snd (tril_indices N) ! k)
                = vectors ! d ! k))))
   \<and> vec_to_tri [[1, 2, 3, 4, 5, 6 :: int]] 3 = Inr [[[1, 0, 0], [2, 3, 0], [4, 5, 6]]]"
proof (intro conjI impI)
  assume h: "\<forall>v\<in>set vectors. length v = N * (N + 1) div 2"
  then have h': "\<forall>v\<in>set vectors. length v = tri_offset N"
    by (simp add: tri_offset_def)
  let ?ms = "map (tri_matrix N) vectors"
  have res: "vec_to_tri vectors N = Inr ?ms"
    using h' by (rule vec_to_tri_result)
  have each: "length (?ms ! d) = N \<and>
           (\<forall>r<N. length (?ms ! d ! r) = N \<and>
              (\<forall>c<N. ?ms ! d ! r ! c =
                 (if c \<le> r then vectors ! d ! (r * (r + 1) div 2 + c) else 0))) \<and>
           (\<forall>k<N * (N + 1) div 2.
              ?ms ! d ! (fst (tril_indices N) ! k) ! (snd (tril_indices N) ! k)
                = vectors ! d ! k)"
    if d: "d < length vectors" for d
  proof -
    have lv: "length (vectors ! d) = tri_offset N"
      using h' d by simp
    have "\<forall>k<N * (N + 1) div 2.
              tri_matrix N (vectors ! d) ! (fst (tril_indices N) ! k) ! (snd (tril_indices N) ! k)
                = vectors ! d ! k"
      using tri_matrix_at_index [OF lv] by (simp add: tri_offset_def)
    then show ?thesis
      using d by (simp add: length_tri_matrix length_tri_matrix_row tri_matrix_nth tri_offset_def)
  qed
  show "\<exists>ms. vec_to_tri vectors N = Inr ms \<and> length ms = length vectors \<and>
        (\<forall>d<length vectors.
           length (ms ! d) = N \<and>
           (\<forall>r<N. length (ms ! d ! r) = N \<and>
              (\<forall>c<N. ms ! d ! r ! c =
                 (if c \<le> r then vectors ! d ! (r * (r + 1) div 2 + c) else 0))) \<and>
           (\<forall>k<N * (N + 1) div 2.
              ms ! d ! (fst (tril_indices N) ! k) ! (snd (tril_indices N) ! k)
                = vectors ! d ! k))"
    using res each by (intro exI [of _ ?ms]) simp
next
  show "vec_to_tri [[1, 2, 3, 4, 5, 6 :: int]] 3 = Inr [[[1, 0, 0], [2, 3, 0], [4, 5, 6]]]"
    by code_simp
qed

theorem C5_vec_to_tri_scatter_witness:
  "length [1, 2, 3, 4, 5, 6 :: int] = 3 * (3 + 1) div 2 \<and>
   length [7, 8, 9, 10, 11, 12 :: int] = 3 * (3 + 1) div 2 \<and>
   (\<exists>ms. vec_to_tri [[1, 2, 3, 4, 5, 6 :: int], [7, 8, 9, 10, 11, 12]] 3 = Inr ms \<and>
         length ms = 2 \<and> ms ! 1 ! 2 ! 1 = 11 \<and> ms ! 1 ! 0 ! 2 = 0)"
proof -
  let ?vs = "[[1, 2, 3, 4, 5, 6 :: int], [7, 8, 9, 10, 11, 12]]"
  have h: "\<forall>v\<in>set ?vs. length v = 3 * (3 + 1) div 2" by simp
  from C5_vec_to_tri_scatter [of ?vs 3] h
  obtain ms where ms: "vec_to_tri ?vs 3 = Inr ms" "length ms = length ?vs"
    and all: "\<forall>d<length ?vs. length (ms ! d) = 3 \<and>
           (\<forall>r<3. length (ms ! d ! r) = 3 \<and>
              (\<forall>c<3. ms ! d ! r ! c =
                 (if c \<le> r then ?vs ! d ! (r * (r + 1) div 2 + c) else 0))) \<and>
           (\<forall>k<3 * (3 + 1) div 2.
              ms ! d ! (fst (tril_indices 3) ! k) ! (snd (tril_indices 3) ! k)
                = ?vs ! d ! k)"
    by blast
  from all have one: "\<forall>r<3. \<forall>c<3. ms ! 1 ! r ! c =
                 (if c \<le> r then ?vs ! 1 ! (r * (r + 1) div 2 + c) else 0)"
    by simp
  have "ms ! 1 ! 2 ! 1 = 11"
    using one [rule_format, of 2 1] by simp
  moreover have "ms ! 1 ! 0 ! 2 = 0"
    using one [rule_format, of 0 2] by simp
  ultimately show ?thesis
    using h ms by auto
qed

text \<open>
  C6. Round trip: for vectors of length \<open>N (N + 1) / 2\<close>, reading the lower triangle of
  each matrix returned by \<open>vec_to_tri\<close> in the order of \<open>tril_indices\<close> gives the
  vector back; hence \<open>vec_to_tri\<close> is injective on such batches.
\<close>

theorem C6_vec_to_tri_round_trip:
  fixes vectors others :: "('a::monoid_add) list list"
  shows
  "((\<forall>v\<in>set vectors. length v = N * (N + 1) div 2) \<longrightarrow>
      (\<exists>ms. vec_to_tri vectors N = Inr ms \<and> map (read_back_tril N) ms = vectors))
   \<and> ((\<forall>v\<in>set vectors. length v = N * (N + 1) div 2) \<and>
       (\<forall>w\<in>set others. length w = N * (N + 1) div 2) \<and>
       vec_to_tri vectors N = vec_to_tri others N \<longrightarrow> vectors = others)"
proof -
  have rt: "vec_to_tri vs N = Inr (map (tri_matrix N) vs) \<and>
            map (read_back_tril N) (map (tri_matrix N) vs) = vs"
    if "\<forall>v\<in>set vs. length v = N * (N + 1) div 2" for vs :: "'a list list"
  proof -
    have h': "\<forall>v\<in>set vs. length v = tri_offset N"
      using that by (simp add: tri_offset_def)
    have "map (read_back_tril N \<circ> tri_matrix N) vs = map (\<lambda>v. v) vs"
      by (rule map_cong) (simp_all add: h' read_back_tri_matrix)
    then show ?thesis
      using h' by (simp add: vec_to_tri_result)
  qed
  show ?thesis
  proof (intro conjI impI)
    assume "\<forall>v\<in>set vectors. length v = N * (N + 1) div 2"
    then show "\<exists>ms. vec_to_tri vectors N = Inr ms \<and> map (read_back_tril N) ms = vectors"
      using rt by blast
  next
    assume "(\<forall>v\<in>set vectors. length v = N * (N + 1) div 2) \<and>
       (\<forall>w\<in>set others. length w = N * (N + 1) div 2) \<and>
       vec_to_tri vectors N = vec_to_tri others N"
    then have hv: "\<forall>v\<in>set vectors. length v = N * (N + 1) div 2"
      and hw: "\<forall>w\<in>set others. length w = N * (N + 1) div 2"
      and eq: "vec_to_tri vectors N = vec_to_tri others N"
      by blast+
    note v = rt [OF hv] and w = rt [OF hw]
    have "Inr (map (tri_matrix N) vectors) = (Inr (map (tri_matrix N) others) :: error + _)"
      using v [THEN conjunct1] w [THEN conjunct1] eq by (simp only:)
    then have "map (tri_matrix N) vectors = map (tri_matrix N) others"
      by (simp only: sum.inject)
    then have "map (read_back_tril N) (map (tri_matrix N) vectors)
               = map (read_back_tril N) (map (tri_matrix N) others)"
      by (rule arg_cong)
    then show "vectors = others"
      by (simp only: v [THEN conjunct2] w [THEN conjunct2])
  qed
qed

theorem C6_vec_to_tri_round_trip_witness:
  "length [7, 8, 9 :: int] = 2 * (2 + 1) div 2 \<and>
   (\<exists>ms. vec_to_tri [[7, 8, 9 :: int]] 2 = Inr ms \<and> map (read_back_tril 2) ms = [[7, 8, 9]]) \<and>
   vec_to_tri [[7, 8, 9 :: int]] 2 = vec_to_tri [[7, 8, 9 :: int]] 2"
proof -
  have h: "\<forall>v\<in>set [[7, 8, 9 :: int]]. length v = 2 * (2 + 1) div 2" by simp
  have "\<exists>ms. vec_to_tri [[7, 8, 9 :: int]] 2 = Inr ms
             \<and> map (read_back_tril 2) ms = [[7, 8, 9]]"
    by (rule mp [OF conjunct1 [OF C6_vec_to_tri_round_trip
                   [of "[[7, 8, 9 :: int]]" 2 "[[7, 8, 9 :: int]]"]] h])
  then show ?thesis by simp
qed

section \<open>Properties of the SGPMC model\<close>

lemma run_V: "run_state V m = (pvalue (V_param m), m)"
  by (simp add: V_def)

lemma run_build_predict:
  "run_state (build_predict conditional Xnew full_cov) m =
     ((fst (conditional \<lparr>arg_feat = feature m, arg_kern = kern m, arg_Xnew = Xnew,
                          arg_f = pvalue (V_param m), arg_full_cov = full_cov,
                          arg_q_sqrt = None, arg_white = True\<rparr>)
        + mean_function m Xnew,
       snd (conditional \<lparr>arg_feat = feature m, arg_kern = kern m, arg_Xnew = Xnew,
                          arg_f = pvalue (V_param m), arg_full_cov = full_cov,
                          arg_q_sqrt = None, arg_white = True\<rparr>)), m)"
  by (simp add: build_predict_def run_V Let_def case_prod_beta)

lemma run_build_likelihood:
  "run_state (build_likelihood conditional ve) m =
     (reduce_sum (ve (likelihood m)
        (fst (fst (run_state (build_predict conditional (X m) False) m)))
        (snd (fst (run_state (build_predict conditional (X m) False) m)))
        (Y m)), m)"
  by (simp add: build_likelihood_def run_build_predict case_prod_beta)

text \<open>
  C1. For every input \<open>Xnew\<close> and flag \<open>full_cov\<close>, and whatever the conditional
  routine computes, \<open>build_predict\<close> calls it with the feature, the kernel,
  \<open>Xnew\<close>, the value of \<open>V\<close>, \<open>full_cov\<close>, \<open>q_sqrt = None\<close> and
  \<open>white = True\<close>; the predictive mean is the mean it returns plus the mean function
  at \<open>Xnew\<close>, and the predictive variance is the variance it returns, the same for
  every mean function.
\<close>

theorem C1_build_predict:
  "fst (run_state (build_predict conditional Xnew full_cov) m) =
     (fst (conditional \<lparr>arg_feat = feature m, arg_kern = kern m, arg_Xnew = Xnew,
                         arg_f = fst (run_state V m), arg_full_cov = full_cov,
                         arg_q_sqrt = None, arg_white = True\<rparr>)
        + mean_function m Xnew,
      snd (conditional \<lparr>arg_feat = feature m, arg_kern = kern m, arg_Xnew = Xnew,
                         arg_f = fst (run_state V m), arg_full_cov = full_cov,
                         arg_q_sqrt = None, arg_white = True\<rparr>))
   \<and> fst (run_state V m) = pvalue (V_param m)
   \<and> snd (fst (run_state (build_predict conditional Xnew full_cov)
                  (m\<lparr>mean_function := mf'\<rparr>)))
       = snd (fst (run_state (build_predict conditional Xnew full_cov) m))"
  by (simp add: run_build_predict run_V)

lemma sum_list_nth: "sum_list xs = (\<Sum>i<length xs. xs ! i)" for xs :: "('e::comm_monoid_add) list"
  by (simp add: sum_list_sum_nth atLeast0LessThan)

lemma reduce_sum_rows:
  fixes t :: "('e::comm_monoid_add) list list"
  shows "reduce_sum t = (\<Sum>n<length t. sum_list (t ! n))"
  unfolding reduce_sum_def by (simp add: sum_list_nth)

lemma reduce_sum_matrix:
  fixes t :: "('e::comm_monoid_add) list list"
  assumes "\<forall>row\<in>set t. length row = R"
  shows "reduce_sum t = (\<Sum>n<length t. \<Sum>d<R. t ! n ! d)"
proof -
  have "sum_list (t ! n) = (\<Sum>d<R. t ! n ! d)" if "n < length t" for n
    using assms that by (simp add: sum_list_nth)
  then show ?thesis
    by (simp add: reduce_sum_rows)
qed

text \<open>
  C2. \<open>build_likelihood\<close> returns the sum of all entries of the variational
  expectations of the likelihood, evaluated at the mean and variance that
  \<open>build_predict\<close> gives at the training inputs \<open>X\<close> with \<open>full_cov = False\<close>
  and at the targets \<open>Y\<close>; when that tensor has \<open>R\<close> columns, the sum runs over
  all data points \<open>n\<close> and all output dimensions \<open>d < R\<close>.
\<close>

theorem C2_build_likelihood:
  fixes m :: "('x, 'y, 'k, 'l, 't::plus, 'v, 'f) sgpmc"
    and ve :: "'l \<Rightarrow> 't \<Rightarrow> 't \<Rightarrow> 'y \<Rightarrow> ('e::comm_monoid_add) list list"
  shows
  "fst (run_state (build_likelihood conditional ve) m)
     = reduce_sum (ve (likelihood m)
         (fst (fst (run_state (build_predict conditional (X m) False) m)))
         (snd (fst (run_state (build_predict conditional (X m) False) m)))
         (Y m))
   \<and> ((\<forall>row\<in>set (ve (likelihood m)
         (fst (fst (run_state (build_predict conditional (X m) False) m)))
         (snd (fst (run_state (build_predict conditional (X m) False) m)))
         (Y m)). length row = R) \<longrightarrow>
       fst (run_state (build_likelihood conditional ve) m)
         = (\<Sum>n<length (ve (likelihood m)
                (fst (fst (run_state (build_predict conditional (X m) False) m)))
                (snd (fst (run_state (build_predict conditional (X m) False) m)))
                (Y m)).
            \<Sum>d<R. ve (likelihood m)
                (fst (fst (run_state (build_predict conditional (X m) False) m)))
                (snd (fst (run_state (build_predict conditional (X m) False) m)))
                (Y m) ! n ! d))"
proof -
  let ?t = "ve (likelihood m)
         (fst (fst (run_state (build_predict conditional (X m) False) m)))
         (snd (fst (run_state (build_predict conditional (X m) False) m)))
         (Y m)"
  have eq: "fst (run_state (build_likelihood conditional ve) m) = reduce_sum ?t"
    by (simp add: run_build_likelihood)
  have "fst (run_state (build_likelihood conditional ve) m)
          = (\<Sum>n<length ?t. \<Sum>d<R. ?t ! n ! d)"
    if h: "\<forall>row\<in>set ?t. length row = R"
    unfolding eq by (rule reduce_sum_matrix [OF h])
  with eq show ?thesis by (intro conjI impI)
qed

lemma np_zeros_Inr:
  "np_zeros [a, b] = Inr z \<longleftrightarrow>
     (0 \<le> a \<and> 0 \<le> b \<and> z = \<lparr>shape = [nat a, nat b], data = replicate (nat a * nat b) 0\<rparr>)"
  by (auto simp: np_zeros_def)

lemma num_latent_or_cases:
  "num_latent_or nl Ya =
     (if nl = None \<or> nl = Some 0
      then (if 1 < length (shape Ya) then Inr (int (shape Ya ! 1))
            else Inl (IndexError ''tuple index out of range''))
      else Inr (the nl))"
  by (cases nl) (auto simp: num_latent_or_def shape_at_def)

lemma SGPMC_init_Inr:
  "SGPMC_init base_init wrap len Xa Ya k l feat mf nl Z = Inr m \<longleftrightarrow>
     (\<exists>self nd nlat f z.
        base_init Xa Ya k l mf = Inr self \<and> shape_at Xa 0 = Inr nd \<and>
        num_latent_or nl Ya = Inr nlat \<and> wrap feat Z = Inr f \<and>
        np_zeros [int (len f), nlat] = Inr z \<and>
        m = \<lparr>name = name self, X = X self, Y = Y self, kern = kern self,
              likelihood = likelihood self, mean_function = mean_function self,
              parameters = parameters self
                 @ [\<lparr>pname = ''V'', pvalue = z, prior = Some (Gaussian 0 1)\<rparr>],
              num_data = nd, num_latent = nlat, feature = f,
              V_param = \<lparr>pname = ''V'', pvalue = z, prior = Some (Gaussian 0 1)\<rparr>\<rparr>)"
  by (auto simp: SGPMC_init_def Let_def Parameter_def split: sum.splits)

text \<open>
  C8. When the constructor returns a model, with \<open>M\<close> the length of its feature and
  \<open>L\<close> its \<open>num_latent\<close> (the number of columns of \<open>Y\<close> when no value is passed,
  the passed value when it is not zero), the parameter \<open>V\<close> has shape \<open>(M, L)\<close>, all
  its \<open>M L\<close> elements are zero, its prior is \<open>Gaussian 0 1\<close>, and it is the last
  element of the parameter list, after the parameters of the base class. The constructor
  does return a model when the base class and the wrapper succeed, \<open>X\<close> has a first
  dimension, and either \<open>Y\<close> has a second dimension or a positive \<open>num_latent\<close> is
  passed.
\<close>

theorem C8_SGPMC_init_V:
  fixes m :: "('x, 'y, 'k, 'l, 't, 'v::zero, 'f) sgpmc"
  shows
  "(SGPMC_init base_init wrap len Xa Ya k l feat mf nl Z = Inr m \<longrightarrow>
      wrap feat Z = Inr (feature m) \<and>
      0 \<le> num_latent m \<and>
      shape (pvalue (V_param m)) = [len (feature m), nat (num_latent m)] \<and>
      data (pvalue (V_param m)) = replicate (len (feature m) * nat (num_latent m)) 0 \<and>
      prior (V_param m) = Some (Gaussian 0 1) \<and>
      (\<exists>self. base_init Xa Ya k l mf = Inr self \<and>
               parameters m = parameters self @ [V_param m]) \<and>
      (nl = None \<longrightarrow> 1 < length (shape Ya) \<and> num_latent m = int (shape Ya ! 1)) \<and>
      (\<forall>n. nl = Some n \<and> n \<noteq> 0 \<longrightarrow> num_latent m = n))
   \<and> (base_init Xa Ya k l mf = Inr self \<and> shape Xa \<noteq> [] \<and> wrap feat Z = Inr f \<and>
       (nl = None \<and> 1 < length (shape Ya) \<or> (\<exists>n. nl = Some n \<and> 0 < n)) \<longrightarrow>
       (\<exists>m :: ('x, 'y, 'k, 'l, 't, 'v, 'f) sgpmc.
          SGPMC_init base_init wrap len Xa Ya k l feat mf nl Z = Inr m))"
proof (rule conjI)
  show "SGPMC_init base_init wrap len Xa Ya k l feat mf nl Z = Inr m \<longrightarrow>
      wrap feat Z = Inr (feature m) \<and>
      0 \<le> num_latent m \<and>
      shape (pvalue (V_param m)) = [len (feature m), nat (num_latent m)] \<and>
      data (pvalue (V_param m)) = replicate (len (feature m) * nat (num_latent m)) 0 \<and>
      prior (V_param m) = Some (Gaussian 0 1) \<and>
      (\<exists>self. base_init Xa Ya k l mf = Inr self \<and>
               parameters m = parameters self @ [V_param m]) \<and>
      (nl = None \<longrightarrow> 1 < length (shape Ya) \<and> num_latent m = int (shape Ya ! 1)) \<and>
      (\<forall>n. nl = Some n \<and> n \<noteq> 0 \<longrightarrow> num_latent m = n)"
  proof (rule impI)
    assume "SGPMC_init base_init wrap len Xa Ya k l feat mf nl Z = Inr m"
    then obtain self nd nlat f z where
      b: "base_init Xa Ya k l mf = Inr self" and nlo: "num_latent_or nl Ya = Inr nlat"
      and w: "wrap feat Z = Inr f" and z: "np_zeros [int (len f), nlat] = Inr (z :: 'v ndarray)"
      and m: "m = \<lparr>name = name self, X = X self, Y = Y self, kern = kern self,
                likelihood = likelihood self, mean_function = mean_function self,
                parameters = parameters self
                   @ [\<lparr>pname = ''V'', pvalue = z, prior = Some (Gaussian 0 1)\<rparr>],
                num_data = nd, num_latent = nlat, feature = f,
                V_param = \<lparr>pname = ''V'', pvalue = z, prior = Some (Gaussian 0 1)\<rparr>\<rparr>"
      unfolding SGPMC_init_Inr by blast
    from z have z': "0 \<le> nlat"
        "z = \<lparr>shape = [len f, nat nlat], data = replicate (len f * nat nlat) 0\<rparr>"
      by (simp_all add: np_zeros_Inr)
    have f1: "wrap feat Z = Inr (feature m)" using w m by simp
    have f2: "0 \<le> num_latent m" using z' m by simp
    have f3: "shape (pvalue (V_param m)) = [len (feature m), nat (num_latent m)]"
      using z' m by simp
    have f4: "data (pvalue (V_param m)) = replicate (len (feature m) * nat (num_latent m)) 0"
      using z' m by simp
    have f5: "prior (V_param m) = Some (Gaussian 0 1)" using m by simp
    have f6: "\<exists>self. base_init Xa Ya k l mf = Inr self
                \<and> parameters m = parameters self @ [V_param m]"
      using b m by simp
    have f7: "nl = None \<longrightarrow> 1 < length (shape Ya) \<and> num_latent m = int (shape Ya ! 1)"
      using nlo m by (auto simp: num_latent_or_cases split: if_splits)
    have f8: "\<forall>n. nl = Some n \<and> n \<noteq> 0 \<longrightarrow> num_latent m = n"
      using nlo m by (auto simp: num_latent_or_cases split: if_splits)
    from f1 f2 f3 f4 f5 f6 f7 f8 show
     "wrap feat Z = Inr (feature m) \<and>
      0 \<le> num_latent m \<and>
      shape (pvalue (V_param m)) = [len (feature m), nat (num_latent m)] \<and>
      data (pvalue (V_param m)) = replicate (len (feature m) * nat (num_latent m)) 0 \<and>
      prior (V_param m) = Some (Gaussian 0 1) \<and>
      (\<exists>self. base_init Xa Ya k l mf = Inr self \<and>
               parameters m = parameters self @ [V_param m]) \<and>
      (nl = None \<longrightarrow> 1 < length (shape Ya) \<and> num_latent m = int (shape Ya ! 1)) \<and>
      (\<forall>n. nl = Some n \<and> n \<noteq> 0 \<longrightarrow> num_latent m = n)"
      by blast
  qed
next
  show "base_init Xa Ya k l mf = Inr self \<and> shape Xa \<noteq> [] \<and> wrap feat Z = Inr f \<and>
       (nl = None \<and> 1 < length (shape Ya) \<or> (\<exists>n. nl = Some n \<and> 0 < n)) \<longrightarrow>
       (\<exists>m :: ('x, 'y, 'k, 'l, 't, 'v, 'f) sgpmc.
          SGPMC_init base_init wrap len Xa Ya k l feat mf nl Z = Inr m)"
  proof (rule impI)
    assume a: "base_init Xa Ya k l mf = Inr self \<and> shape Xa \<noteq> [] \<and> wrap feat Z = Inr f \<and>
         (nl = None \<and> 1 < length (shape Ya) \<or> (\<exists>n. nl = Some n \<and> 0 < n))"
    then obtain nlat where nlat: "num_latent_or nl Ya = Inr nlat" "0 \<le> nlat"
      by (auto simp: num_latent_or_cases)
    have "shape_at Xa 0 = Inr (shape Xa ! 0)"
      using a by (simp add: shape_at_def)
    moreover have "np_zeros [int (len f), nlat]
        = Inr (\<lparr>shape = [len f, nat nlat], data = replicate (len f * nat nlat) 0\<rparr> :: 'v ndarray)"
      using nlat by (simp add: np_zeros_Inr)
    ultimately show "\<exists>m :: ('x, 'y, 'k, 'l, 't, 'v, 'f) sgpmc.
            SGPMC_init base_init wrap len Xa Ya k l feat mf nl Z = Inr m"
      using a nlat unfolding SGPMC_init_Inr by blast
  qed
qed

text \<open>
  C10. Passing \<open>num_latent = 0\<close> to the constructor gives the same result as passing
  nothing: \<open>num_latent\<close> becomes the number of columns of \<open>Y\<close>. A passed value \<open>n\<close>
  becomes \<open>num_latent\<close> when it is not zero.
\<close>

theorem C10_num_latent_falsy:
  fixes m :: "('x, 'y, 'k, 'l, 't, 'v::zero, 'f) sgpmc"
  shows
  "(SGPMC_init base_init wrap len Xa Ya k l feat mf (Some 0) Z
      = (SGPMC_init base_init wrap len Xa Ya k l feat mf None Z
           :: error + ('x, 'y, 'k, 'l, 't, 'v, 'f) sgpmc))
   \<and> (SGPMC_init base_init wrap len Xa Ya k l feat mf (Some 0) Z = Inr m \<longrightarrow>
        1 < length (shape Ya) \<and> num_latent m = int (shape Ya ! 1))
   \<and> (SGPMC_init base_init wrap len Xa Ya k l feat mf (Some n) Z = Inr m \<longrightarrow>
        num_latent m = (if n \<noteq> 0 then n else int (shape Ya ! 1)))"
proof -
  have eq: "num_latent_or (Some 0) Ya = num_latent_or None Ya"
    by (simp add: num_latent_or_cases)
  have c1: "SGPMC_init base_init wrap len Xa Ya k l feat mf (Some 0) Z
      = (SGPMC_init base_init wrap len Xa Ya k l feat mf None Z
           :: error + ('x, 'y, 'k, 'l, 't, 'v, 'f) sgpmc)"
    unfolding SGPMC_init_def eq by (rule refl)
  have c2: "SGPMC_init base_init wrap len Xa Ya k l feat mf (Some 0) Z = Inr m \<longrightarrow>
        1 < length (shape Ya) \<and> num_latent m = int (shape Ya ! 1)"
    unfolding SGPMC_init_Inr by (auto simp: num_latent_or_cases split: if_splits)
  have c3: "SGPMC_init base_init wrap len Xa Ya k l feat mf (Some n) Z = Inr m \<longrightarrow>
        num_latent m = (if n \<noteq> 0 then n else int (shape Ya ! 1))"
    unfolding SGPMC_init_Inr by (auto simp: num_latent_or_cases split: if_splits)
  show ?thesis
    by (rule conjI [OF c1 conjI [OF c2 c3]])
qed

section \<open>The statements on the concrete model\<close>

lemmas example_defs = example_X_def example_Y_def example_Z_def example_base_init_def
  example_wrapper_def example_len_def example_V_def example_model_def
  example_conditional_def example_ve_def example_mean_def


theorem C2_build_likelihood_witness:
  "length (example_ve () 13 1 example_Y ! 0) = 2 \<and>
   fst (run_state (build_likelihood example_conditional example_ve) example_model) = 48"
proof -
  let ?t = "example_ve (likelihood example_model)
         (fst (fst (run_state (build_predict example_conditional (X example_model) False)
                      example_model)))
         (snd (fst (run_state (build_predict example_conditional (X example_model) False)
                      example_model)))
         (Y example_model)"
  have t: "?t = [[13, 1], [14, 2], [15, 3]]"
    by (simp add: run_build_predict example_defs)
  have h: "\<forall>row\<in>set ?t. length row = 2"
    unfolding t by simp
  have "fst (run_state (build_likelihood example_conditional example_ve) example_model)
          = (\<Sum>n<length ?t. \<Sum>d<2. ?t ! n ! d)"
    using C2_build_likelihood [of example_conditional example_ve example_model 2] h by blast
  also have "\<dots> = 48"
    unfolding t by (simp add: lessThan_Suc numeral_2_eq_2 numeral_3_eq_3)
  finally show ?thesis
    by (simp add: example_ve_def)
qed

theorem C8_SGPMC_init_V_witness:
  "SGPMC_init example_base_init example_wrapper example_len example_X example_Y () () ()
       example_mean None example_Z = Inr example_model \<and>
   shape (pvalue (V_param example_model)) = [2, 2] \<and>
   data (pvalue (V_param example_model)) = [0, 0, 0, 0] \<and>
   prior (V_param example_model) = Some (Gaussian 0 1) \<and>
   parameters example_model = [] @ [V_param example_model]"
proof -
  have r: "SGPMC_init example_base_init example_wrapper example_len example_X example_Y () () ()
       example_mean None example_Z = Inr example_model"
    by (simp add: SGPMC_init_def num_latent_or_def shape_at_def np_zeros_def Parameter_def
          example_defs Let_def eval_nat_numeral)
  from C8_SGPMC_init_V [of example_base_init example_wrapper example_len example_X example_Y
          "()" "()" "()" example_mean None example_Z example_model] r
  have "shape (pvalue (V_param example_model))
          = [example_len (feature example_model), nat (num_latent example_model)]"
    and "data (pvalue (V_param example_model))
          = replicate (example_len (feature example_model) * nat (num_latent example_model)) 0"
    and "prior (V_param example_model) = Some (Gaussian 0 1)"
    by blast+
  then show ?thesis
    using r by (simp add: example_defs numeral_2_eq_2)
qed

theorem C10_num_latent_falsy_witness:
  "SGPMC_init example_base_init example_wrapper example_len example_X example_Y () () ()
       example_mean (Some 0) example_Z = Inr example_model \<and>
   num_latent example_model = int (shape example_Y ! 1) \<and>
   num_latent example_model = 2"
proof -
  have r: "SGPMC_init example_base_init example_wrapper example_len example_X example_Y () () ()
       example_mean (Some 0) example_Z = Inr example_model"
    by (simp add: SGPMC_init_def num_latent_or_def shape_at_def np_zeros_def Parameter_def
          example_defs Let_def eval_nat_numeral)
  from C10_num_latent_falsy [of example_base_init example_wrapper example_len example_X
          example_Y "()" "()" "()" example_mean example_Z example_model] r
  have "num_latent example_model = int (shape example_Y ! 1)"
    by blast
  then show ?thesis
    using r by (simp add: example_defs)
qed

end
